theory Spec2Isabelle
  imports Main
begin

section \<open>The typed request helper of example-05\<close>

text \<open>
  The development embeds the last snippet of the repository, \<^verbatim>\<open>src/example-05.tsx\<close>:

  \<^verbatim>\<open>
  async function request<D extends { BodyType: undefined | {}; ResponseType: {} }>(
    method: "GET" | "POST", endpoint: string, body?: D["BodyType"]
  ): Promise<D["ResponseType"]> {
    const response = await fetch(`https://api.com/v1${endpoint}`,
      { method, body: body ? JSON.stringify(body) : undefined });
    return response.json();
  }
  \<close>

  TypeScript erases types when it compiles, so what runs is a JavaScript function of
  three values that calls the ambient \<^verbatim>\<open>fetch\<close> once and then \<^verbatim>\<open>json()\<close>
  on what \<^verbatim>\<open>fetch\<close> resolved to.
\<close>

subsection \<open>Run-time values\<close>

text \<open>
  The values exchanged are plain JSON data. An object is the list of its properties in
  enumeration order. A number is modelled as an integer; it stands for the JavaScript
  number of the same value when that is a safe integer (magnitude below \<open>2^53\<close>).
  Fractions, \<^verbatim>\<open>NaN\<close>, the infinities, functions, symbols, big integers and cyclic
  objects are outside the model. A string is a list of 8-bit characters, each standing
  for the code unit of the same number.
\<close>

datatype jsval =
    JNull
  | JBool bool
  | JNum int
  | JStr string
  | JArr "jsval list"
  | JObj "(string \<times> jsval) list"

text \<open>
  The condition of \<^verbatim>\<open>body ? ... : ...\<close> is JavaScript's \<^verbatim>\<open>ToBoolean\<close>:
  \<^verbatim>\<open>null\<close>, \<^verbatim>\<open>false\<close>, \<^verbatim>\<open>0\<close> and the empty string are falsy, every object
  and array is truthy. The optional parameter \<^verbatim>\<open>body?\<close> is a \<^typ>\<open>jsval option\<close>,
  \<^term>\<open>None\<close> standing for \<^verbatim>\<open>undefined\<close> (omitted or passed explicitly), which is
  falsy as well.
\<close>

fun truthy :: "jsval \<Rightarrow> bool" where
  "truthy JNull = False"
| "truthy (JBool b) = b"
| "truthy (JNum n) = (n \<noteq> 0)"
| "truthy (JStr s) = (s \<noteq> [])"
| "truthy (JArr xs) = True"
| "truthy (JObj ps) = True"

text \<open>
  A structured payload is a record-like value: an object or an array.
\<close>

fun structured :: "jsval \<Rightarrow> bool" where
  "structured (JObj ps) = True"
| "structured (JArr xs) = True"
| "structured v = False"

subsection \<open>\<^verbatim>\<open>JSON.stringify\<close> on plain data\<close>

text \<open>
  The platform's serializer, called with one argument: no indentation, no spaces,
  properties in enumeration order. Decimal digits for integers, as \<^verbatim>\<open>Number::toString\<close>
  prints every safe integer.
\<close>

definition digit_char :: "nat \<Rightarrow> char" where
  "digit_char d = ''0123456789abcdef'' ! (d mod 16)"

function show_nat :: "nat \<Rightarrow> string" where
  "show_nat n = (if n < 10 then [digit_char n] else show_nat (n div 10) @ [digit_char (n mod 10)])"
  by pat_completeness auto
termination
  by (relation "measure (\<lambda>n. n)") auto

declare show_nat.simps [simp del]

definition show_int :: "int \<Rightarrow> string" where
  "show_int i = (if i < 0 then CHR ''-'' # show_nat (nat (- i)) else show_nat (nat i))"

text \<open>
  \<^verbatim>\<open>QuoteJSONString\<close>: the quote and the backslash are escaped, the control characters
  below \<open>0x20\<close> are written with their short escape or as \<^verbatim>\<open>\u00xx\<close>, every other
  character is copied.
\<close>

definition escape_char :: "char \<Rightarrow> string" where
  "escape_char c =
     (if c = CHR ''\"'' then [CHR 0x5C, CHR ''\"'']
      else if c = CHR 0x5C then [CHR 0x5C, CHR 0x5C]
      else if c = CHR 0x08 then [CHR 0x5C, CHR ''b'']
      else if c = CHR 0x0C then [CHR 0x5C, CHR ''f'']
      else if c = CHR 0x0A then [CHR 0x5C, CHR ''n'']
      else if c = CHR 0x0D then [CHR 0x5C, CHR ''r'']
      else if c = CHR 0x09 then [CHR 0x5C, CHR ''t'']
      else if (of_char c :: nat) < 32
        then [CHR 0x5C, CHR ''u'', CHR ''0'', CHR ''0'',
              digit_char (of_char c div 16), digit_char (of_char c mod 16)]
      else [c])"

definition quote :: "string \<Rightarrow> string" where
  "quote s = CHR ''\"'' # concat (map escape_char s) @ [CHR ''\"'']"

fun JSON_stringify :: "jsval \<Rightarrow> string"
  and stringify_elements :: "jsval list \<Rightarrow> string"
  and stringify_properties :: "(string \<times> jsval) list \<Rightarrow> string"
where
  "JSON_stringify JNull = ''null''"
| "JSON_stringify (JBool b) = (if b then ''true'' else ''false'')"
| "JSON_stringify (JNum n) = show_int n"
| "JSON_stringify (JStr s) = quote s"
| "JSON_stringify (JArr xs) = ''['' @ stringify_elements xs @ '']''"
| "JSON_stringify (JObj ps) = ''{'' @ stringify_properties ps @ ''}''"
| "stringify_elements [] = []"
| "stringify_elements [x] = JSON_stringify x"
| "stringify_elements (x # y # xs) = JSON_stringify x @ '','' @ stringify_elements (y # xs)"
| "stringify_properties [] = []"
| "stringify_properties [(k, v)] = quote k @ '':'' @ JSON_stringify v"
| "stringify_properties ((k, v) # p # ps) =
     quote k @ '':'' @ JSON_stringify v @ '','' @ stringify_properties (p # ps)"

subsection \<open>The transport\<close>

text \<open>
  \<^verbatim>\<open>method: "GET" | "POST"\<close> is a closed set of two string literals.
\<close>

datatype http_method = GET | POST

text \<open>
  The second argument of \<^verbatim>\<open>fetch\<close> is the object literal \<^verbatim>\<open>{ method, body: ... }\<close>;
  a \<^verbatim>\<open>body\<close> property that is \<^verbatim>\<open>undefined\<close> is \<^term>\<open>None\<close>: the request
  carries no body.
\<close>

record RequestInit =
  init_method :: http_method
  init_body :: "string option"

text \<open>
  A promise that settles is either rejected with a reason or fulfilled with a value:
  \<open>error + 'a\<close>, with \<^term>\<open>Inl\<close> the rejection. The reasons are the three kinds of
  failure an exchange can end with, each with its message.
\<close>

datatype error = TransportError string | EncodingError string | DecodingError string

text \<open>
  What \<^verbatim>\<open>fetch\<close> resolves to is an object of which \<^verbatim>\<open>request\<close> uses one
  operation, \<^verbatim>\<open>json()\<close>: the field \<open>json\<close> is what the promise returned by that
  call settles to, the decoded value or the failure to decode. The status code is
  part of every response.
\<close>

record Response =
  status :: nat
  json :: "error + jsval"

text \<open>
  \<^verbatim>\<open>fetch\<close> is the ambient network capability. It is a parameter here, and its
  effect on the world is explicit: given the URL, the options and the state of the
  world before the call, it returns how its promise settles and the state after.
\<close>

type_synonym 'w transport = "string \<Rightarrow> RequestInit \<Rightarrow> 'w \<Rightarrow> (error + Response) \<times> 'w"

text \<open>
  A stub that captures every outgoing call. Its world is the list of the calls made so
  far, oldest first; \<open>answer\<close> decides from that history and the call at hand how the
  promise settles.
\<close>

type_synonym call = "string \<times> RequestInit"

definition stub :: "(call list \<Rightarrow> string \<Rightarrow> RequestInit \<Rightarrow> error + Response) \<Rightarrow> call list transport" where
  "stub answer url init log = (answer log url init, log @ [(url, init)])"

subsection \<open>Descriptors\<close>

text \<open>
  The type argument \<^verbatim>\<open>D extends { BodyType: undefined | {}; ResponseType: {} }\<close> is
  a pair of types. A type is modelled by the values that inhabit it: \<open>BodyType\<close> is a
  predicate on what may be passed as \<^verbatim>\<open>body\<close> (\<^term>\<open>None\<close> is \<^verbatim>\<open>undefined\<close>),
  \<open>ResponseType\<close> a predicate on decoded values. The descriptor is the first argument
  of the model of \<^verbatim>\<open>request\<close>, as it is the first thing a call site writes.
\<close>

record descriptor =
  BodyType :: "jsval option \<Rightarrow> bool"
  ResponseType :: "jsval \<Rightarrow> bool"

text \<open>
  \<^verbatim>\<open>type User = { name: string }\<close>: an object with a property \<^verbatim>\<open>name\<close> that is
  a string.
\<close>

definition User :: "jsval \<Rightarrow> bool" where
  "User v =
     (case v of
        JObj ps \<Rightarrow> (case map_of ps ''name'' of Some (JStr s) \<Rightarrow> True | _ \<Rightarrow> False)
      | _ \<Rightarrow> False)"

text \<open>
  The two descriptors the call sites write:
  \<^verbatim>\<open>{ BodyType: undefined; ResponseType: User }\<close> and
  \<^verbatim>\<open>{ BodyType: User; ResponseType: User }\<close>.
\<close>

definition getUser_D :: descriptor where
  "getUser_D = \<lparr>BodyType = (\<lambda>b. case b of None \<Rightarrow> True | Some v \<Rightarrow> False), ResponseType = User\<rparr>"

definition createUser_D :: descriptor where
  "createUser_D = \<lparr>BodyType = (\<lambda>b. case b of None \<Rightarrow> False | Some v \<Rightarrow> User v), ResponseType = User\<rparr>"

subsection \<open>\<^verbatim>\<open>request\<close> and its two call sites\<close>

text \<open>
  The body of \<^verbatim>\<open>request\<close>, in the order it runs: the template literal builds the
  URL, the conditional decides the \<^verbatim>\<open>body\<close> property, \<^verbatim>\<open>fetch\<close> is called
  once and awaited; a rejection of \<^verbatim>\<open>fetch\<close> rejects the promise of
  \<^verbatim>\<open>request\<close> with the same reason, otherwise that promise settles as the one
  returned by \<^verbatim>\<open>response.json()\<close> does. The descriptor does not occur on the
  right-hand side: no type is left at run time.
\<close>

definition request ::
  "descriptor \<Rightarrow> 'w transport \<Rightarrow> http_method \<Rightarrow> string \<Rightarrow> jsval option \<Rightarrow> 'w \<Rightarrow> (error + jsval) \<times> 'w" where
  "request D fetch method endpoint body w =
     (case fetch (''https://api.com/v1'' @ endpoint)
             \<lparr>init_method = method,
              init_body = (case body of
                             None \<Rightarrow> None
                           | Some v \<Rightarrow> if truthy v then Some (JSON_stringify v) else None)\<rparr>
             w of
        (Inl reason, w') \<Rightarrow> (Inl reason, w')
      | (Inr response, w') \<Rightarrow> (json response, w'))"

text \<open>
  \<^verbatim>\<open>getUser(userId: number)\<close> and \<^verbatim>\<open>createUser(user: User)\<close>. The template
  literal \<^verbatim>\<open>`/users/${userId}`\<close> prints the number in decimal.
\<close>

definition getUser :: "'w transport \<Rightarrow> int \<Rightarrow> 'w \<Rightarrow> (error + jsval) \<times> 'w" where
  "getUser fetch userId = request getUser_D fetch GET (''/users/'' @ show_int userId) None"

definition createUser :: "'w transport \<Rightarrow> jsval \<Rightarrow> 'w \<Rightarrow> (error + jsval) \<times> 'w" where
  "createUser fetch user = request createUser_D fetch POST ''/users'' (Some user)"

subsection \<open>Stubs and sample values\<close>

text \<open>
  The simplest stubs settle every call the same way, whatever was asked and whatever
  came before.
\<close>

definition always :: "error + Response \<Rightarrow> call list \<Rightarrow> string \<Rightarrow> RequestInit \<Rightarrow> error + Response" where
  "always outcome log url init = outcome"

text \<open>
  \<^verbatim>\<open>{ name: "Kumar" }\<close>, the user the module's default export creates, and a
  payload that is not a \<^verbatim>\<open>User\<close>, as a failing server may send with status 500.
\<close>

definition kumar :: jsval where
  "kumar = JObj [(''name'', JStr ''Kumar'')]"

definition server_error :: jsval where
  "server_error = JObj [(''error'', JStr ''Internal Server Error'')]"

section \<open>Properties\<close>

subsection \<open>Auxiliary facts\<close>

lemma structured_truthy: "structured v \<Longrightarrow> truthy v"
  by (cases v) simp_all

lemma stringify_kumar: "JSON_stringify kumar = ''{\"name\":\"Kumar\"}''"
  by (simp add: kumar_def quote_def escape_char_def)

lemma show_int_1: "show_int 1 = ''1''"
  by (simp add: show_int_def show_nat.simps digit_char_def)

lemma User_kumar: "User kumar"
  by (simp add: User_def kumar_def)

text \<open>
  What the conditional does with a body that is truthy, structured or not: it is
  serialized and the text is what the transport receives, under either method.
\<close>

lemma truthy_body_serialized:
  "truthy v \<Longrightarrow>
   snd (request D (stub answer) method endpoint (Some v) log) =
     log @ [(''https://api.com/v1'' @ endpoint,
             \<lparr>init_method = method, init_body = Some (JSON_stringify v)\<rparr>)]"
  by (simp add: request_def stub_def split: sum.splits)

subsection \<open>Decoded values\<close>

text \<open>
  C1. Round trip: for every descriptor and every value \<open>v\<close> of its \<open>ResponseType\<close>,
  against a stub that answers every call with a response decoding to \<open>v\<close> (whatever its
  status), the promise of \<^verbatim>\<open>request\<close> is fulfilled with \<open>v\<close> itself, whatever
  the method, the endpoint and the body.
\<close>

theorem request_round_trip:
  "ResponseType D v \<Longrightarrow>
   fst (request D (stub (always (Inr \<lparr>status = st, json = Inr v\<rparr>))) method endpoint body log) = Inr v"
  by (simp add: request_def stub_def always_def)

text \<open>
  The instance named with C1: \<^verbatim>\<open>request("GET", "/users/1")\<close> under the descriptor of
  \<^verbatim>\<open>getUser\<close>, against a stub returning \<^verbatim>\<open>{"name":"Kumar"}\<close>, yields
  \<^verbatim>\<open>{ name: "Kumar" }\<close>; it is the call \<^verbatim>\<open>getUser(1)\<close> makes.
\<close>

theorem request_round_trip_witness:
  "ResponseType getUser_D kumar \<and>
   fst (request getUser_D (stub (always (Inr \<lparr>status = 200, json = Inr kumar\<rparr>))) GET ''/users/1'' None [])
     = Inr kumar \<and>
   fst (getUser (stub (always (Inr \<lparr>status = 200, json = Inr kumar\<rparr>))) 1 []) = Inr kumar"
proof -
  have h: "ResponseType getUser_D kumar"
    by (simp add: getUser_D_def User_kumar)
  from h request_round_trip [OF h, of 200 GET "''/users/1''" None "[]"]
  show ?thesis by (simp add: getUser_def show_int_1)
qed

subsection \<open>What is transmitted\<close>

text \<open>
  C2, as stated, fails: a \<^verbatim>\<open>GET\<close> call under the body-capable descriptor of
  \<^verbatim>\<open>createUser\<close>, with \<^verbatim>\<open>{ name: "Kumar" }\<close> as body, is a call that descriptor
  admits, and it hands the transport a request that carries the serialized body. Method
  and body are independent in \<^verbatim>\<open>request\<close>.
\<close>

theorem get_with_body_counterexample:
  "BodyType createUser_D (Some kumar) \<and>
   snd (request createUser_D (stub (always (Inr \<lparr>status = 200, json = Inr kumar\<rparr>)))
          GET ''/users'' (Some kumar) []) =
     [(''https://api.com/v1/users'', \<lparr>init_method = GET, init_body = Some ''{\"name\":\"Kumar\"}''\<rparr>)]"
proof
  show "BodyType createUser_D (Some kumar)"
    by (simp add: createUser_D_def User_kumar)
next
  have "truthy kumar"
    by (simp add: kumar_def)
  then show "snd (request createUser_D (stub (always (Inr \<lparr>status = 200, json = Inr kumar\<rparr>)))
          GET ''/users'' (Some kumar) []) =
     [(''https://api.com/v1/users'', \<lparr>init_method = GET, init_body = Some ''{\"name\":\"Kumar\"}''\<rparr>)]"
    by (simp add: request_def stub_def always_def stringify_kumar)
qed

text \<open>
  C2, amended. When no body argument is supplied, which is the only call the descriptor
  \<^verbatim>\<open>BodyType: undefined\<close> admits, the one request handed to the transport carries no
  body, for every descriptor, endpoint and method, \<^verbatim>\<open>GET\<close> in particular.
\<close>

theorem no_body_argument_no_body:
  "snd (request D (stub answer) method endpoint None log) =
     log @ [(''https://api.com/v1'' @ endpoint, \<lparr>init_method = method, init_body = None\<rparr>)]"
  by (simp add: request_def stub_def split: sum.splits)

text \<open>
  C3. For every \<^verbatim>\<open>POST\<close> call whose body is a structured value \<open>v\<close>, the transport
  receives exactly one more call, and its payload is the serialization of \<open>v\<close>.
\<close>

theorem post_body_serialized:
  "structured v \<Longrightarrow>
   snd (request D (stub answer) POST endpoint (Some v) log) =
     log @ [(''https://api.com/v1'' @ endpoint,
             \<lparr>init_method = POST, init_body = Some (JSON_stringify v)\<rparr>)]"
  by (simp add: request_def stub_def structured_truthy split: sum.splits)

text \<open>
  The instance named with C3: \<^verbatim>\<open>request("POST", "/users", { name: "Kumar" })\<close>, the
  call of \<^verbatim>\<open>createUser({ name: "Kumar" })\<close>, transmits the text
  \<^verbatim>\<open>{"name":"Kumar"}\<close>.
\<close>

theorem post_body_serialized_witness:
  "structured kumar \<and>
   snd (request createUser_D (stub (always (Inr \<lparr>status = 200, json = Inr kumar\<rparr>)))
          POST ''/users'' (Some kumar) []) =
     [(''https://api.com/v1/users'', \<lparr>init_method = POST, init_body = Some ''{\"name\":\"Kumar\"}''\<rparr>)] \<and>
   snd (createUser (stub (always (Inr \<lparr>status = 200, json = Inr kumar\<rparr>))) kumar []) =
     [(''https://api.com/v1/users'', \<lparr>init_method = POST, init_body = Some ''{\"name\":\"Kumar\"}''\<rparr>)]"
proof -
  have h: "structured kumar"
    by (simp add: kumar_def)
  from h post_body_serialized
    [OF h, of createUser_D "always (Inr \<lparr>status = 200, json = Inr kumar\<rparr>)" "''/users''" "[]"]
  show ?thesis by (simp add: createUser_def stringify_kumar)
qed

text \<open>
  C5 asks that every body that is present be serialized and transmitted. The
  conditional tests the body for truth, not for presence: the bodies \<^verbatim>\<open>0\<close>,
  \<^verbatim>\<open>""\<close> and \<^verbatim>\<open>false\<close>, which the constraint \<^verbatim>\<open>BodyType: undefined | {}\<close>
  admits under the body types \<^verbatim>\<open>number\<close>, \<^verbatim>\<open>string\<close> and \<^verbatim>\<open>boolean\<close>, are
  dropped, although each has a serialization.
\<close>

theorem falsy_body_dropped:
  "snd (request D (stub answer) POST endpoint (Some (JNum 0)) log) =
     log @ [(''https://api.com/v1'' @ endpoint, \<lparr>init_method = POST, init_body = None\<rparr>)] \<and>
   snd (request D (stub answer) POST endpoint (Some (JStr [])) log) =
     log @ [(''https://api.com/v1'' @ endpoint, \<lparr>init_method = POST, init_body = None\<rparr>)] \<and>
   snd (request D (stub answer) POST endpoint (Some (JBool False)) log) =
     log @ [(''https://api.com/v1'' @ endpoint, \<lparr>init_method = POST, init_body = None\<rparr>)] \<and>
   JSON_stringify (JNum 0) = ''0'' \<and>
   JSON_stringify (JStr []) = ''\"\"'' \<and>
   JSON_stringify (JBool False) = ''false''"
  by (simp add: request_def stub_def quote_def show_int_def show_nat.simps digit_char_def
      split: sum.splits)

text \<open>
  C6. For every endpoint string, the URL of the one call the transport receives is the
  fixed base followed by the endpoint, character for character.
\<close>

theorem url_is_base_then_endpoint:
  "map fst (snd (request D (stub answer) method endpoint body log)) =
     map fst log @ [''https://api.com/v1'' @ endpoint]"
  by (simp add: request_def stub_def split: sum.splits)

subsection \<open>Failures\<close>

text \<open>
  C7. If the promise of the transport is rejected for the request that is sent, the
  promise of \<^verbatim>\<open>request\<close> is rejected with the same reason, so it is not fulfilled
  with any value, and the transport has been called once: nothing is tried again.
\<close>

theorem transport_failure_propagates:
  "answer log (''https://api.com/v1'' @ endpoint)
          \<lparr>init_method = method,
           init_body = (case body of None \<Rightarrow> None
                        | Some v \<Rightarrow> if truthy v then Some (JSON_stringify v) else None)\<rparr>
     = Inl reason \<Longrightarrow>
   fst (request D (stub answer) method endpoint body log) = Inl reason \<and>
   length (snd (request D (stub answer) method endpoint body log)) = length log + 1"
  by (simp add: request_def stub_def)

text \<open>
  A refused connection on \<^verbatim>\<open>request("GET", "/users/1")\<close>.
\<close>

theorem transport_failure_propagates_witness:
  "always (Inl (TransportError ''connection refused'')) [] ''https://api.com/v1/users/1''
          \<lparr>init_method = GET, init_body = None\<rparr>
     = Inl (TransportError ''connection refused'') \<and>
   fst (request getUser_D (stub (always (Inl (TransportError ''connection refused''))))
          GET ''/users/1'' None [])
     = Inl (TransportError ''connection refused'') \<and>
   length (snd (request getUser_D (stub (always (Inl (TransportError ''connection refused''))))
                  GET ''/users/1'' None []))
     = 1"
  using transport_failure_propagates
    [of "always (Inl (TransportError ''connection refused''))" "[]" "''/users/1''" GET None
        "TransportError ''connection refused''" getUser_D]
  by (simp add: always_def)

text \<open>
  C8. If the transport answers with a response whose body cannot be decoded, that is,
  whose \<^verbatim>\<open>json()\<close> is rejected with a decoding error, the promise of
  \<^verbatim>\<open>request\<close> is rejected with that error; it is not fulfilled with a null or
  default value.
\<close>

theorem undecodable_response_fails:
  "answer log (''https://api.com/v1'' @ endpoint)
          \<lparr>init_method = method,
           init_body = (case body of None \<Rightarrow> None
                        | Some v \<Rightarrow> if truthy v then Some (JSON_stringify v) else None)\<rparr>
     = Inr response \<Longrightarrow>
   json response = Inl (DecodingError msg) \<Longrightarrow>
   fst (request D (stub answer) method endpoint body log) = Inl (DecodingError msg)"
  by (simp add: request_def stub_def)

text \<open>
  A response with status 200 and a body that is not JSON, on
  \<^verbatim>\<open>request("GET", "/users/1")\<close>.
\<close>

theorem undecodable_response_fails_witness:
  "always (Inr \<lparr>status = 200, json = Inl (DecodingError ''Unexpected token <'')\<rparr>) []
          ''https://api.com/v1/users/1'' \<lparr>init_method = GET, init_body = None\<rparr>
     = Inr \<lparr>status = 200, json = Inl (DecodingError ''Unexpected token <'')\<rparr> \<and>
   json \<lparr>status = 200, json = Inl (DecodingError ''Unexpected token <'')\<rparr>
     = Inl (DecodingError ''Unexpected token <'') \<and>
   fst (request getUser_D
          (stub (always (Inr \<lparr>status = 200, json = Inl (DecodingError ''Unexpected token <'')\<rparr>)))
          GET ''/users/1'' None [])
     = Inl (DecodingError ''Unexpected token <'')"
  using undecodable_response_fails
    [of "always (Inr \<lparr>status = 200, json = Inl (DecodingError ''Unexpected token <'')\<rparr>)"
        "[]" "''/users/1''" GET None
        "\<lparr>status = 200, json = Inl (DecodingError ''Unexpected token <'')\<rparr>"
        "''Unexpected token <''" getUser_D]
  by (simp add: always_def)

subsection \<open>No check of the response, no influence of the descriptor\<close>

text \<open>
  C9. If the transport answers with a response that decodes to \<open>v\<close>, the promise of
  \<^verbatim>\<open>request\<close> is fulfilled with \<open>v\<close>, whatever the status of the response and
  whether or not \<open>v\<close> inhabits the \<open>ResponseType\<close> of the descriptor: neither occurs
  among the hypotheses.
\<close>

theorem decoded_value_returned_unchecked:
  "answer log (''https://api.com/v1'' @ endpoint)
          \<lparr>init_method = method,
           init_body = (case body of None \<Rightarrow> None
                        | Some v \<Rightarrow> if truthy v then Some (JSON_stringify v) else None)\<rparr>
     = Inr response \<Longrightarrow>
   json response = Inr v \<Longrightarrow>
   fst (request D (stub answer) method endpoint body log) = Inr v"
  by (simp add: request_def stub_def)

text \<open>
  A response with status 500 whose payload is not a \<^verbatim>\<open>User\<close> is returned by
  \<^verbatim>\<open>request("GET", "/users/1")\<close> under the descriptor that declares a
  \<^verbatim>\<open>User\<close>.
\<close>

theorem decoded_value_returned_unchecked_witness:
  "always (Inr \<lparr>status = 500, json = Inr server_error\<rparr>) []
          ''https://api.com/v1/users/1'' \<lparr>init_method = GET, init_body = None\<rparr>
     = Inr \<lparr>status = 500, json = Inr server_error\<rparr> \<and>
   json \<lparr>status = 500, json = Inr server_error\<rparr> = Inr server_error \<and>
   \<not> ResponseType getUser_D server_error \<and>
   fst (request getUser_D (stub (always (Inr \<lparr>status = 500, json = Inr server_error\<rparr>)))
          GET ''/users/1'' None [])
     = Inr server_error"
  using decoded_value_returned_unchecked
    [of "always (Inr \<lparr>status = 500, json = Inr server_error\<rparr>)"
        "[]" "''/users/1''" GET None
        "\<lparr>status = 500, json = Inr server_error\<rparr>" server_error getUser_D]
  by (simp add: always_def getUser_D_def User_def server_error_def)

text \<open>
  C10. Two calls with the same method, endpoint and body, under any two descriptors,
  against any two transports in any two states, settle alike as soon as the two
  transports settle alike for the request that is sent.
\<close>

theorem request_depends_on_answer_only:
  "fst (fetch1 (''https://api.com/v1'' @ endpoint)
             \<lparr>init_method = method,
              init_body = (case body of None \<Rightarrow> None
                           | Some v \<Rightarrow> if truthy v then Some (JSON_stringify v) else None)\<rparr> w1)
   = fst (fetch2 (''https://api.com/v1'' @ endpoint)
             \<lparr>init_method = method,
              init_body = (case body of None \<Rightarrow> None
                           | Some v \<Rightarrow> if truthy v then Some (JSON_stringify v) else None)\<rparr> w2)
   \<Longrightarrow> fst (request D1 fetch1 method endpoint body w1) = fst (request D2 fetch2 method endpoint body w2)"
  by (auto simp: request_def split: prod.splits sum.splits)

text \<open>
  The same \<^verbatim>\<open>POST\<close> of \<^verbatim>\<open>{ name: "Kumar" }\<close> under the two descriptors of the
  module, against the stub before and after an earlier call.
\<close>

theorem request_depends_on_answer_only_witness:
  "fst (stub (always (Inr \<lparr>status = 200, json = Inr kumar\<rparr>)) ''https://api.com/v1/users''
          \<lparr>init_method = POST, init_body = Some ''{\"name\":\"Kumar\"}''\<rparr> [])
   = fst (stub (always (Inr \<lparr>status = 200, json = Inr kumar\<rparr>)) ''https://api.com/v1/users''
          \<lparr>init_method = POST, init_body = Some ''{\"name\":\"Kumar\"}''\<rparr>
          [(''https://api.com/v1/users/1'', \<lparr>init_method = GET, init_body = None\<rparr>)]) \<and>
   fst (request createUser_D (stub (always (Inr \<lparr>status = 200, json = Inr kumar\<rparr>)))
          POST ''/users'' (Some kumar) [])
   = fst (request getUser_D (stub (always (Inr \<lparr>status = 200, json = Inr kumar\<rparr>)))
          POST ''/users'' (Some kumar)
          [(''https://api.com/v1/users/1'', \<lparr>init_method = GET, init_body = None\<rparr>)])"
  using request_depends_on_answer_only
    [of "stub (always (Inr \<lparr>status = 200, json = Inr kumar\<rparr>))" "''/users''" POST "Some kumar" "[]"
        "stub (always (Inr \<lparr>status = 200, json = Inr kumar\<rparr>))"
        "[(''https://api.com/v1/users/1'', \<lparr>init_method = GET, init_body = None\<rparr>)]"
        createUser_D getUser_D]
  by (simp add: stub_def always_def stringify_kumar)

end
